theory Spec2Isabelle
  imports Main "HOL-Library.Word"
begin

unbundle bit_operations_syntax

section \<open>Bytes, fixed-width integers and big-endian coding\<close>

text \<open>
  Go's \<open>byte\<close>/\<open>uint8\<close>, \<open>int16\<close>/\<open>uint16\<close> and \<open>int32\<close> are words of 8, 16 and 32
  bits. Signedness only matters where a value is compared or used as a length or an
  index; there it is read with \<open>sint\<close>.
\<close>

type_synonym byte = "8 word"
type_synonym int16 = "16 word"
type_synonym int32 = "32 word"

text \<open>\<open>encoding/binary\<close> with \<open>binary.BigEndian\<close>: most significant byte first.\<close>

definition put16 :: "int16 \<Rightarrow> byte list" where
  "put16 w = [ucast (drop_bit 8 w), ucast w]"

definition put32 :: "int32 \<Rightarrow> byte list" where
  "put32 w = [ucast (drop_bit 24 w), ucast (drop_bit 16 w), ucast (drop_bit 8 w), ucast w]"

definition get16 :: "byte \<Rightarrow> byte \<Rightarrow> int16" where
  "get16 a b = push_bit 8 (ucast a) OR ucast b"

definition get32 :: "byte \<Rightarrow> byte \<Rightarrow> byte \<Rightarrow> byte \<Rightarrow> int32" where
  "get32 a b c d =
     push_bit 24 (ucast a) OR push_bit 16 (ucast b) OR push_bit 8 (ucast c) OR ucast d"

section \<open>Constants of \<open>StunClient.go\<close>\<close>

definition MAGIC_COOKIE :: int32 where "MAGIC_COOKIE = 0x2112A442"

definition REQUEST :: int16 where "REQUEST = 0x0001"
definition INDICATION :: int16 where "INDICATION = 0x0010"
definition SUCCESS_RESPONSE :: int16 where "SUCCESS_RESPONSE = 0x0101"
definition ERROR_RESPONSE :: int16 where "ERROR_RESPONSE = 0x0110"

definition trans_id_size :: "8 word" where "trans_id_size = 96"

definition MAPPED_ADDRESS :: int16 where "MAPPED_ADDRESS = 0x0001"
definition USERNAME :: int16 where "USERNAME = 0x0006"
definition MESSAGE_INTEGRITY :: int16 where "MESSAGE_INTEGRITY = 0x0008"
definition ERROR_CODE :: int16 where "ERROR_CODE = 0x0009"
definition UNKNOWN_ATTRIBUTES :: int16 where "UNKNOWN_ATTRIBUTES = 0x000A"
definition REALM :: int16 where "REALM = 0x0014"
definition NONCE :: int16 where "NONCE = 0x0015"
definition XOR_MAPPED_ADDRESS :: int16 where "XOR_MAPPED_ADDRESS = 0x0020"

section \<open>Errors and panics\<close>

text \<open>
  The five error structures of the package, the plain \<open>errors.New\<close> values, the two
  errors \<open>binary.Read\<close> gives on a short buffer (\<open>io.EOF\<close> when nothing could be read,
  \<open>io.ErrUnexpectedEOF\<close> when fewer bytes than the structure needs), and the error of a
  failing socket or entropy call.
\<close>

datatype error =
    Gen_Random_Error
  | Make_Header_Error
  | Message_Send_Error
  | Not_Success_Response "byte list" "byte list"
  | Unknown_Transaction_Id "byte list" "byte list"
  | errors_New string
  | io_EOF
  | io_ErrUnexpectedEOF
  | net_OpError string

text \<open>
  A run-time panic is not an error value: it unwinds through every caller. The functions
  that slice or allocate return \<open>'a run\<close>.
\<close>

datatype panic = slice_bounds_out_of_range | makeslice_len_out_of_range

datatype 'a run = Panic panic | Return 'a

section \<open>Slices\<close>

text \<open>
  A Go slice is a window on a backing array: \<open>vis\<close> holds its \<open>len\<close> elements and
  \<open>spare\<close> the elements of the array between \<open>len\<close> and \<open>cap\<close>. A slice expression
  \<open>s[lo:hi]\<close> is checked against the capacity, \<open>0 \<le> lo \<le> hi \<le> cap(s)\<close>, not against the
  length, and panics outside; \<open>s[lo:]\<close> is \<open>s[lo:len(s)]\<close>.
\<close>

record slice =
  vis :: "byte list"
  spare :: "byte list"

definition len :: "slice \<Rightarrow> int" where
  "len s = int (length (vis s))"

definition cap :: "slice \<Rightarrow> int" where
  "cap s = int (length (vis s) + length (spare s))"

definition reslice :: "slice \<Rightarrow> int \<Rightarrow> int \<Rightarrow> slice run" where
  "reslice s lo hi =
     (if 0 \<le> lo \<and> lo \<le> hi \<and> hi \<le> cap s
      then Return \<lparr>vis = take (nat (hi - lo)) (drop (nat lo) (vis s @ spare s)),
                   spare = drop (nat hi) (vis s @ spare s)\<rparr>
      else Panic slice_bounds_out_of_range)"

definition reslice_from :: "slice \<Rightarrow> int \<Rightarrow> slice run" where
  "reslice_from s lo = reslice s lo (len s)"

text \<open>\<open>copy(dst, src)\<close> copies \<open>min(len(dst), len(src))\<close> elements.\<close>

definition copy :: "byte list \<Rightarrow> byte list \<Rightarrow> byte list" where
  "copy dst src = take (length dst) src @ drop (length src) dst"

section \<open>\<open>makeHeader\<close>\<close>

text \<open>
  \<open>binary.Write\<close> into a \<open>bytes.Buffer\<close> of an \<open>int16\<close>, an \<open>int16\<close>, an \<open>int32\<close> and a
  byte slice: none of the four writes can fail, so the \<open>Make_Header_Error\<close> branch is
  never taken.
\<close>

definition makeHeader :: "int16 \<Rightarrow> int16 \<Rightarrow> int32 \<Rightarrow> byte list \<Rightarrow> error + byte list" where
  "makeHeader message_type message_length magic_cookie transaction_id =
     Inr (put16 message_type @ put16 message_length @ put32 magic_cookie @ transaction_id)"

section \<open>Reading the header\<close>

record header_data =
  Message_type :: int16
  Message_length :: int16
  Magic_cookie :: int32
  Transaction_id :: "byte list"

text \<open>
  \<open>binary.Read\<close> of the 20-byte structure declared in \<open>recvMessage\<close>
  (two \<open>int16\<close>, one \<open>int32\<close>, \<open>[12]byte\<close>).
\<close>

definition binary_Read_header :: "byte list \<Rightarrow> error + header_data" where
  "binary_Read_header buf =
     (if length buf = 0 then Inl io_EOF
      else if length buf < 20 then Inl io_ErrUnexpectedEOF
      else Inr \<lparr>Message_type = get16 (buf ! 0) (buf ! 1),
                Message_length = get16 (buf ! 2) (buf ! 3),
                Magic_cookie = get32 (buf ! 4) (buf ! 5) (buf ! 6) (buf ! 7),
                Transaction_id = take 12 (drop 8 buf)\<rparr>)"

section \<open>Reading one attribute\<close>

text \<open>
  \<open>binary.Read\<close> of the structure \<open>{Attr_type, Attr_len int16}\<close>: four bytes are needed.
\<close>

fun binary_Read_type_length :: "byte list \<Rightarrow> error + (int16 \<times> int16)" where
  "binary_Read_type_length (a # b # c # d # rest) = Inr (get16 a b, get16 c d)"
| "binary_Read_type_length [] = Inl io_EOF"
| "binary_Read_type_length short = Inl io_ErrUnexpectedEOF"

text \<open>
  The five results are the attribute type, the declared length, the copied value, the
  number of bytes the attribute takes and the error. \<open>make\<close> panics on a negative
  length; \<open>4 + type_length.Attr_len\<close> is \<open>int16\<close> arithmetic and wraps; the slice
  expression \<open>body[4 : 4 + Attr_len]\<close> is checked against the capacity of \<open>body\<close>.
\<close>

definition getSingleAttribute ::
  "slice \<Rightarrow> (int16 \<times> int16 \<times> byte list \<times> int \<times> error option) run" where
  "getSingleAttribute body =
     (if len body = 0
      then Return (0, 0, [], 0, Some (errors_New ''Cannot parse empty body.''))
      else case binary_Read_type_length (vis body) of
        Inl err \<Rightarrow> Return (0, 0, [], 0, Some err)
      | Inr (Attr_type, Attr_len) \<Rightarrow>
          if sint Attr_len < 0 then Panic makeslice_len_out_of_range
          else (case reslice body 4 (sint (4 + Attr_len)) of
                  Panic p \<Rightarrow> Panic p
                | Return src \<Rightarrow>
                    Return (Attr_type, Attr_len,
                            copy (replicate (nat (sint Attr_len)) 0) (vis src),
                            4 + sint Attr_len, None)))"

section \<open>Address attributes\<close>

text \<open>
  \<open>net.UDPAddr\<close>: the IP as the byte slice the parser stored and the port. The zone is
  never set.
\<close>

record UDPAddr =
  IP :: "byte list"
  Port :: int

text \<open>\<open>xor_bytes\<close> changes the first \<open>min(len(one), len(two))\<close> bytes of \<open>one\<close>.\<close>

fun xor_bytes :: "byte list \<Rightarrow> byte list \<Rightarrow> byte list" where
  "xor_bytes (a # one) (b # two) = (a XOR b) # xor_bytes one two"
| "xor_bytes one two = one"

text \<open>
  \<open>binary.Read\<close> of the structure \<open>{Garbage, Family uint8; Port uint16}\<close>.
\<close>

fun binary_Read_family_port :: "byte list \<Rightarrow> error + (byte \<times> byte \<times> 16 word)" where
  "binary_Read_family_port (g # f # p # q # rest) = Inr (g, f, get16 p q)"
| "binary_Read_family_port [] = Inl io_EOF"
| "binary_Read_family_port short = Inl io_ErrUnexpectedEOF"

text \<open>
  Both parsers return a pair (address, error) of which at most one is set:
  \<open>Inl\<close> is the error, \<open>Inr None\<close> is \<open>nil, nil\<close>.
\<close>

definition get_addr_XOR :: "byte list \<Rightarrow> byte list \<Rightarrow> error + UDPAddr option" where
  "get_addr_XOR attribute transaction_id =
     (if length attribute = 0
      then Inl (errors_New ''STUN Client: Empty attribute recieved'')
      else case binary_Read_family_port attribute of
        Inl err \<Rightarrow> Inl err
      | Inr (Garbage, Family, XPort) \<Rightarrow>
          let port = XPort XOR ucast (signed_drop_bit 16 MAGIC_COOKIE);
              magic_cookie = put32 MAGIC_COOKIE;
              XAddress = drop 4 attribute
          in if Family = 0x01
             then Inr (Some \<lparr>IP = xor_bytes XAddress magic_cookie, Port = uint port\<rparr>)
             else if Family = 0x02
             then Inr (Some \<lparr>IP = xor_bytes XAddress (magic_cookie @ transaction_id),
                              Port = uint port\<rparr>)
             else Inr None)"

definition get_addr :: "byte list \<Rightarrow> error + UDPAddr option" where
  "get_addr attribute =
     (if length attribute = 0
      then Inl (errors_New ''STUN Client: Empty attribute recieved'')
      else case binary_Read_family_port attribute of
        Inl err \<Rightarrow> Inl err
      | Inr (Garbage, Family, data_Port) \<Rightarrow>
          Inr (Some \<lparr>IP = drop 4 attribute, Port = uint data_Port\<rparr>))"

section \<open>The attribute loop of \<open>recvMessage\<close>\<close>

text \<open>
  One round of the loop: read an attribute, add its size to \<open>bytes_read\<close>, move
  \<open>body\<close> on by \<open>attr_size\<close> (\<open>body = body[attr_size:]\<close>), and only then look at the
  error. The two address types return; every other type goes round again.
\<close>

function attr_loop ::
  "int \<Rightarrow> slice \<Rightarrow> int \<Rightarrow> byte list \<Rightarrow> (error + UDPAddr option) run" where
  "attr_loop bytes_read body message_length transaction_id =
     (if bytes_read < message_length
      then (case getSingleAttribute body of
              Panic p \<Rightarrow> Panic p
            | Return (attr_type, attr_size, attr_value, r, err) \<Rightarrow>
                (case reslice_from body (sint attr_size) of
                   Panic p \<Rightarrow> Panic p
                 | Return body' \<Rightarrow>
                     (case err of
                        Some e \<Rightarrow> Return (Inl e)
                      | None \<Rightarrow>
                          if attr_type = MAPPED_ADDRESS
                          then Return (get_addr attr_value)
                          else if attr_type = XOR_MAPPED_ADDRESS
                          then Return (get_addr_XOR attr_value transaction_id)
                          else attr_loop (bytes_read + r) body' message_length
                                 transaction_id)))
      else Return (Inr None))"
  by pat_completeness auto
termination
  by (relation "measure (\<lambda>(bytes_read, body, message_length, transaction_id).
                  nat (message_length - bytes_read))")
     (auto simp: getSingleAttribute_def split: if_splits sum.splits run.splits)

declare attr_loop.simps [simp del]

section \<open>Decoding a received packet\<close>

text \<open>
  \<open>recvMessage\<close> reads into a zeroed buffer of 1280 bytes; \<open>packet_of raw\<close> is the buffer
  after \<open>ReadFromUDP\<close> delivered the datagram \<open>raw\<close>. The number of bytes received is
  not used after the read loop.
\<close>

definition packet_of :: "byte list \<Rightarrow> byte list" where
  "packet_of raw = take 1280 raw @ replicate (1280 - length raw) 0"

definition zero_header :: header_data where
  "zero_header = \<lparr>Message_type = 0, Message_length = 0, Magic_cookie = 0,
                   Transaction_id = replicate 12 0\<rparr>"

text \<open>Lines 236 to 303 of \<open>recvMessage\<close>, on the filled buffer.\<close>

definition recvMessage_decode ::
  "byte list \<Rightarrow> byte list \<Rightarrow> (error + UDPAddr option) run" where
  "recvMessage_decode packet transaction_id =
     (case reslice \<lparr>vis = packet, spare = []\<rparr> 0 20 of
        Panic p \<Rightarrow> Panic p
      | Return header \<Rightarrow>
     (case reslice_from \<lparr>vis = packet, spare = []\<rparr> 20 of
        Panic p \<Rightarrow> Panic p
      | Return body \<Rightarrow>
     (case (case binary_Read_header (vis header) of
              Inl err \<Rightarrow> if err \<noteq> io_EOF then Inl err else Inr zero_header
            | Inr d \<Rightarrow> Inr d) of
        Inl err \<Rightarrow> Return (Inl err)
      | Inr data \<Rightarrow>
     (case reslice body 0 (sint (Message_length data)) of
        Panic p \<Rightarrow> Panic p
      | Return body \<Rightarrow>
          if Message_type data \<noteq> SUCCESS_RESPONSE
          then Return (Inl (Not_Success_Response (vis header) (vis body)))
          else if Transaction_id data \<noteq> transaction_id
          then Return (Inl (Unknown_Transaction_Id (Transaction_id data) transaction_id))
          else attr_loop 0 body (sint (Message_length data)) transaction_id))))"

text \<open>The decoder applied to a received datagram.\<close>

definition decode :: "byte list \<Rightarrow> byte list \<Rightarrow> (error + UDPAddr option) run" where
  "decode raw expected_transaction_id =
     recvMessage_decode (packet_of raw) expected_transaction_id"

section \<open>The socket and the entropy source\<close>

text \<open>
  What the package asks of its surroundings is scripted in a \<open>world\<close>:
  \<^item> \<open>rand.Read\<close> fails with \<open>entropy_err\<close> or takes the next bytes of \<open>entropy\<close>;
  \<^item> each \<open>WriteToUDP\<close> call takes the next entry of \<open>net_writes\<close>, an error or the number
    of bytes written, and the bytes written are added to \<open>sent\<close>;
  \<^item> each \<open>ReadFromUDP\<close> call takes the next entry of \<open>net_reads\<close>, an error or a
    datagram.
  A call on an exhausted script never returns: the functions below give \<open>None\<close>.
\<close>

record world =
  entropy_err :: "error option"
  entropy :: "nat \<Rightarrow> byte"
  entropy_pos :: nat
  net_writes :: "(error + nat) list"
  net_reads :: "(error + byte list) list"
  sent :: "byte list list"

datatype UDPConn = UDPConn nat

definition rand_Read :: "world \<Rightarrow> nat \<Rightarrow> (error + byte list) \<times> world" where
  "rand_Read w n =
     (case entropy_err w of
        Some err \<Rightarrow> (Inl err, w)
      | None \<Rightarrow> (Inr (map (entropy w) [entropy_pos w ..< entropy_pos w + n]),
                 w\<lparr>entropy_pos := entropy_pos w + n\<rparr>))"

section \<open>\<open>sendMessage\<close>\<close>

text \<open>
  \<open>message.Bytes()\<close> of a fresh \<open>bytes.Buffer\<close> after the two writes: the contents, in
  an array of 64 bytes when they fit (the small-buffer allocation of \<open>bytes.Buffer\<close>).
  The package only sends the 20-byte request header with an empty body; for contents
  longer than 64 bytes, which it never sends, no spare capacity is modelled.
\<close>

definition bytes_Buffer_Bytes :: "byte list \<Rightarrow> slice" where
  "bytes_Buffer_Bytes contents =
     \<lparr>vis = contents, spare = replicate (64 - length contents) 0\<rparr>"

text \<open>The loop \<open>for size != 0\<close> with \<open>msg = msg[n : cap(msg)]\<close> and \<open>size -= n\<close>
  (\<open>msg_size\<close> is the source's \<open>size\<close>).\<close>

fun WriteToUDP_loop ::
  "(error + nat) list \<Rightarrow> byte list list \<Rightarrow> slice \<Rightarrow> int \<Rightarrow>
   (error option run \<times> (error + nat) list \<times> byte list list) option" where
  "WriteToUDP_loop script log msg msg_size =
     (if msg_size \<noteq> 0
      then (case script of
              [] \<Rightarrow> None
            | res # rest \<Rightarrow>
                (case res of
                   Inl err \<Rightarrow> Some (Return (Some err), rest, log)
                 | Inr n \<Rightarrow>
                     (case reslice msg (int n) (cap msg) of
                        Panic p \<Rightarrow> Some (Panic p, rest, log @ [take n (vis msg)])
                      | Return msg' \<Rightarrow>
                          WriteToUDP_loop rest (log @ [take n (vis msg)]) msg'
                            (msg_size - int n))))
      else Some (Return None, script, log))"

declare WriteToUDP_loop.simps [simp del]

definition sendMessage ::
  "world \<Rightarrow> byte list \<Rightarrow> byte list \<Rightarrow> (error option run \<times> world) option" where
  "sendMessage w header body =
     (if length header = 0 then Some (Return (Some Message_Send_Error), w)
      else let msg = bytes_Buffer_Bytes (header @ body); msg_size = len msg
           in case WriteToUDP_loop (net_writes w) (sent w) msg msg_size of
                None \<Rightarrow> None
              | Some (r, script, log) \<Rightarrow> Some (r, w\<lparr>net_writes := script, sent := log\<rparr>))"

section \<open>\<open>recvMessage\<close>\<close>

text \<open>
  The read loop goes round while \<open>ReadFromUDP\<close> gives zero bytes and no error. A
  datagram longer than the buffer is cut to 1280 bytes.
\<close>

fun ReadFromUDP_loop ::
  "(error + byte list) list \<Rightarrow> ((error + byte list) \<times> (error + byte list) list) option" where
  "ReadFromUDP_loop [] = None"
| "ReadFromUDP_loop (Inl err # rest) = Some (Inl err, rest)"
| "ReadFromUDP_loop (Inr datagram # rest) =
     (if 0 < min (length datagram) 1280 then Some (Inr datagram, rest)
      else ReadFromUDP_loop rest)"

definition recvMessage ::
  "world \<Rightarrow> byte list \<Rightarrow> ((error + UDPAddr option) run \<times> world) option" where
  "recvMessage w transaction_id =
     (case ReadFromUDP_loop (net_reads w) of
        None \<Rightarrow> None
      | Some (Inl err, rest) \<Rightarrow> Some (Return (Inl err), w\<lparr>net_reads := rest\<rparr>)
      | Some (Inr raw, rest) \<Rightarrow>
          Some (recvMessage_decode (packet_of raw) transaction_id, w\<lparr>net_reads := rest\<rparr>))"

section \<open>\<open>RequestRemoteIPAndPort\<close>\<close>

definition RequestRemoteIPAndPort ::
  "UDPConn option \<Rightarrow> UDPAddr option \<Rightarrow> world \<Rightarrow>
   ((error + UDPAddr option) run \<times> world) option" where
  "RequestRemoteIPAndPort conn server w =
     (if conn = None \<or> server = None then Some (Return (Inl Gen_Random_Error), w)
      else case rand_Read w (unat (trans_id_size div 8)) of
        (Inl err, w1) \<Rightarrow> Some (Return (Inl Gen_Random_Error), w1)
      | (Inr secureRandomNumber, w1) \<Rightarrow>
          (case makeHeader REQUEST 0 MAGIC_COOKIE secureRandomNumber of
             Inl err \<Rightarrow> Some (Return (Inl err), w1)
           | Inr request_header \<Rightarrow>
               (case sendMessage w1 request_header [] of
                  None \<Rightarrow> None
                | Some (Panic p, w2) \<Rightarrow> Some (Panic p, w2)
                | Some (Return (Some err), w2) \<Rightarrow> Some (Return (Inl err), w2)
                | Some (Return None, w2) \<Rightarrow>
                    (case recvMessage w2 secureRandomNumber of
                       None \<Rightarrow> None
                     | Some (Panic p, w3) \<Rightarrow> Some (Panic p, w3)
                     | Some (Return (Inl err), w3) \<Rightarrow> Some (Return (Inl err), w3)
                     | Some (Return (Inr addr), w3) \<Rightarrow> Some (Return (Inr addr), w3)))))"

section \<open>The XOR-MAPPED-ADDRESS value a server builds\<close>

text \<open>
  The package only decodes. The value it is given is built by the server, as the
  specification words it: a zero byte, the family, the port XOR \<open>0x2112\<close> in big-endian,
  and the IP XORed byte by byte with the 4-byte cookie (IPv4, family 1) or with the
  cookie followed by the transaction id (IPv6, family 2).
\<close>

definition xor_encode :: "byte \<Rightarrow> byte list \<Rightarrow> 16 word \<Rightarrow> byte list \<Rightarrow> byte list" where
  "xor_encode family ip port T =
     [0, family] @ put16 (port XOR 0x2112)
     @ map2 (XOR) ip (if family = 0x02 then put32 0x2112A442 @ T else put32 0x2112A442)"

section \<open>Notions used to state the properties\<close>

text \<open>
  The slice \<open>body\<close> of \<open>recvMessage\<close> after \<open>body = body[0:data.Message_length]\<close>,
  for a declared length \<open>n\<close> between 0 and 1260: the first \<open>n\<close> bytes after the header,
  with the rest of the buffer as spare capacity.
\<close>

definition restricted_body :: "byte list \<Rightarrow> int \<Rightarrow> slice" where
  "restricted_body packet n =
     \<lparr>vis = take (nat n) (drop 20 packet), spare = drop (nat n) (drop 20 packet)\<rparr>"

text \<open>
  The attribute loop runs to the end of the declared length: every round reads an
  attribute without panic or error, the attribute is not one of the two address types,
  and the loop leaves because \<open>bytes_read\<close> reached \<open>message_length\<close>.
\<close>

function walk_exhausts :: "int \<Rightarrow> slice \<Rightarrow> int \<Rightarrow> bool" where
  "walk_exhausts bytes_read body message_length =
     (if bytes_read < message_length
      then (case getSingleAttribute body of
              Panic p \<Rightarrow> False
            | Return (attr_type, attr_size, attr_value, r, err) \<Rightarrow>
                (case reslice_from body (sint attr_size) of
                   Panic p \<Rightarrow> False
                 | Return body' \<Rightarrow>
                     if err = None \<and> attr_type \<noteq> MAPPED_ADDRESS
                        \<and> attr_type \<noteq> XOR_MAPPED_ADDRESS
                     then walk_exhausts (bytes_read + r) body' message_length
                     else False))
      else True)"
  by pat_completeness auto
termination
  by (relation "measure (\<lambda>(bytes_read, body, message_length).
                  nat (message_length - bytes_read))")
     (auto simp: getSingleAttribute_def split: if_splits sum.splits run.splits)

declare walk_exhausts.simps [simp del]

section \<open>Big-endian coding is invertible\<close>

lemma get16_put16: "get16 (ucast (drop_bit 8 w)) (ucast w) = w"
  unfolding get16_def
  by (rule bit_word_eqI) (auto simp: bit_simps)

lemma get32_put32:
  "get32 (ucast (drop_bit 24 w)) (ucast (drop_bit 16 w)) (ucast (drop_bit 8 w)) (ucast w) = w"
  unfolding get32_def
proof (rule bit_word_eqI)
  fix n assume "n < LENGTH(32)"
  then consider "n < 8" | "8 \<le> n" "n < 16" | "16 \<le> n" "n < 24" | "24 \<le> n" "n < 32"
    by fastforce
  then show "bit (push_bit 24 (ucast (ucast (drop_bit 24 w) :: byte)) OR
                  push_bit 16 (ucast (ucast (drop_bit 16 w) :: byte)) OR
                  push_bit 8 (ucast (ucast (drop_bit 8 w) :: byte)) OR
                  (ucast (ucast w :: byte) :: int32)) n = bit w n"
    by cases (auto simp add: bit_simps)
qed

section \<open>Header round trip\<close>

text \<open>
  C6. For every message type, message length, cookie and 12-byte transaction id,
  \<open>makeHeader\<close> gives 20 bytes laid out as type(2), length(2), cookie(4),
  transaction id(12), big-endian, and the header read of \<open>recvMessage\<close> on these bytes
  gives back the four fields.
\<close>

theorem header_roundtrip:
  assumes "length transaction_id = 12"
  shows "\<exists>hdr. makeHeader message_type message_length magic_cookie transaction_id = Inr hdr
           \<and> length hdr = 20
           \<and> hdr = put16 message_type @ put16 message_length @ put32 magic_cookie
                    @ transaction_id
           \<and> binary_Read_header hdr =
               Inr \<lparr>Message_type = message_type, Message_length = message_length,
                    Magic_cookie = magic_cookie, Transaction_id = transaction_id\<rparr>"
  using assms
  by (simp add: makeHeader_def binary_Read_header_def put16_def put32_def
        get16_put16 get32_put32)

theorem header_roundtrip_witness:
  "\<exists>hdr. makeHeader REQUEST 0 MAGIC_COOKIE (map of_nat [0..<12]) = Inr hdr
     \<and> length hdr = 20
     \<and> hdr = put16 REQUEST @ put16 0 @ put32 MAGIC_COOKIE @ map of_nat [0..<12]
     \<and> binary_Read_header hdr =
         Inr \<lparr>Message_type = REQUEST, Message_length = 0,
              Magic_cookie = MAGIC_COOKIE, Transaction_id = map of_nat [0..<12]\<rparr>"
  using header_roundtrip [of "map of_nat [0..<12]" REQUEST 0 MAGIC_COOKIE]
  by simp

section \<open>XOR-MAPPED-ADDRESS round trip\<close>

lemma xor_bytes_map2:
  "length ip \<le> length key \<Longrightarrow> xor_bytes (map2 (XOR) ip key) key = ip"
proof (induction ip arbitrary: key)
  case Nil
  show ?case by (cases key) simp_all
next
  case (Cons a ip)
  then obtain m key2 where "key = m # key2" by (cases key) auto
  with Cons show ?case by (simp add: xor.assoc)
qed

lemma cookie_high16: "ucast (signed_drop_bit 16 MAGIC_COOKIE) = (0x2112 :: 16 word)"
  by (simp add: MAGIC_COOKIE_def)

lemma length_put32: "length (put32 w) = 4"
  by (simp add: put32_def)

lemma binary_Read_family_port_put16:
  "binary_Read_family_port (g # f # put16 w @ rest) = Inr (g, f, w)"
  unfolding put16_def by (simp add: get16_put16)

lemma drop4_put16: "drop 4 (g # f # put16 w @ rest) = rest"
  unfolding put16_def by simp

lemma xor_twice: "(p XOR c) XOR c = (p :: 'a::len word)"
  by (simp add: xor.assoc)

text \<open>
  C4. With cookie \<open>0x2112A442\<close> and any 12-byte transaction id \<open>T\<close>: encoding a 4-byte
  IP with family 1, or a 16-byte IP with family 2, and any 16-bit port, then parsing the
  value with \<open>get_addr_XOR\<close> and the same \<open>T\<close>, gives the original IP and port. The
  result of the parser has no family field: the family is the length of the IP, 4 or 16
  bytes, which is the original one.
\<close>

theorem xor_mapped_address_roundtrip:
  assumes "length T = 12"
  shows "(length ip = 4 \<longrightarrow>
            get_addr_XOR (xor_encode 0x01 ip port T) T = Inr (Some \<lparr>IP = ip, Port = uint port\<rparr>))
       \<and> (length ip = 16 \<longrightarrow>
            get_addr_XOR (xor_encode 0x02 ip port T) T = Inr (Some \<lparr>IP = ip, Port = uint port\<rparr>))"
proof -
  have c: "(0x2112A442 :: int32) = MAGIC_COOKIE" by (simp add: MAGIC_COOKIE_def)
  have v4: "length ip = 4 \<Longrightarrow> xor_bytes (map2 (XOR) ip (put32 MAGIC_COOKIE)) (put32 MAGIC_COOKIE) = ip"
    by (rule xor_bytes_map2) (simp add: length_put32)
  have v6: "length ip = 16 \<Longrightarrow>
      xor_bytes (map2 (XOR) ip (put32 MAGIC_COOKIE @ T)) (put32 MAGIC_COOKIE @ T) = ip"
    using assms by (intro xor_bytes_map2) (simp add: length_put32)
  have e4: "xor_encode 0x01 ip port T =
              0 # 1 # put16 (port XOR 0x2112) @ map2 (XOR) ip (put32 MAGIC_COOKIE)"
    by (simp add: xor_encode_def c)
  have e6: "xor_encode 0x02 ip port T =
              0 # 2 # put16 (port XOR 0x2112) @ map2 (XOR) ip (put32 MAGIC_COOKIE @ T)"
    by (simp add: xor_encode_def c)
  show ?thesis
    unfolding e4 e6 get_addr_XOR_def binary_Read_family_port_put16 drop4_put16
      cookie_high16 xor_twice
    using v4 v6 by (simp add: Let_def xor_twice)
qed

theorem xor_mapped_address_roundtrip_witness:
  "get_addr_XOR (xor_encode 0x01 [203, 0, 113, 5] 12345 (map of_nat [0..<12])) (map of_nat [0..<12])
     = Inr (Some \<lparr>IP = [203, 0, 113, 5], Port = 12345\<rparr>)
   \<and> get_addr_XOR (xor_encode 0x02 (map of_nat [32..<48]) 443 (map of_nat [0..<12])) (map of_nat [0..<12])
     = Inr (Some \<lparr>IP = map of_nat [32..<48], Port = 443\<rparr>)"
  using xor_mapped_address_roundtrip [of "map of_nat [0..<12]" "[203, 0, 113, 5]" 12345]
        xor_mapped_address_roundtrip [of "map of_nat [0..<12]" "map of_nat [32..<48]" 443]
  by simp

section \<open>Address families\<close>

lemma binary_Read_family_port_long:
  "4 \<le> length v \<Longrightarrow>
   binary_Read_family_port v = Inr (v ! 0, v ! 1, get16 (v ! 2) (v ! 3))"
proof -
  assume "4 \<le> length v"
  then obtain g f p q rest where "v = g # f # p # q # rest"
    by (cases v; cases "tl v"; cases "tl (tl v)"; cases "tl (tl (tl v))") auto
  then show ?thesis by simp
qed

text \<open>
  C7 as stated fails for the MAPPED-ADDRESS parser: \<open>get_addr\<close> never looks at the
  family byte ("Doesn't matter what family"), so a value with family 3 gives an address.
\<close>

theorem unsupported_family_counterexample:
  "[0, 3, 0, 80, 10, 0, 0, 1] ! 1 \<noteq> (0x01 :: byte)
   \<and> [0, 3, 0, 80, 10, 0, 0, 1] ! 1 \<noteq> (0x02 :: byte)
   \<and> get_addr [0, 3, 0, 80, 10, 0, 0, 1] = Inr (Some \<lparr>IP = [10, 0, 0, 1], Port = 80\<rparr>)"
  by (simp add: get_addr_def get16_def)

text \<open>
  C7, amended. For every attribute value of at least four bytes whose family byte is
  neither 1 nor 2, \<open>get_addr_XOR\<close> returns neither an error nor an address, while
  \<open>get_addr\<close> returns an address: the bytes after the first four as IP and bytes 2 and
  3 as port.
\<close>

theorem unsupported_family:
  assumes "4 \<le> length v" and "v ! 1 \<noteq> 0x01" and "v ! 1 \<noteq> 0x02"
  shows "get_addr_XOR v T = Inr None
       \<and> get_addr v = Inr (Some \<lparr>IP = drop 4 v, Port = uint (get16 (v ! 2) (v ! 3))\<rparr>)"
  using assms
  by (auto simp: get_addr_XOR_def get_addr_def binary_Read_family_port_long Let_def)

theorem unsupported_family_witness:
  "get_addr_XOR [0, 3, 0, 80, 10, 0, 0, 1] (map of_nat [0..<12]) = Inr None
   \<and> get_addr [0, 3, 0, 80, 10, 0, 0, 1] = Inr (Some \<lparr>IP = [10, 0, 0, 1], Port = 80\<rparr>)"
  using unsupported_family [of "[0, 3, 0, 80, 10, 0, 0, 1]" "map of_nat [0..<12]"]
  by (simp add: get16_def)

section \<open>Facts about slices\<close>

lemma reslice_from_nat:
  "k \<le> length (vis s) \<Longrightarrow>
   reslice_from s (int k) = Return \<lparr>vis = drop k (vis s), spare = spare s\<rparr>"
  by (simp add: reslice_from_def reslice_def len_def cap_def nat_diff_distrib' flip: of_nat_diff)

lemma reslice_from_0: "reslice_from s 0 = Return \<lparr>vis = vis s, spare = spare s\<rparr>"
  using reslice_from_nat [of 0 s] by simp

section \<open>Empty address attributes\<close>

text \<open>
  C10. Both address parsers return an error and no address on an empty value, and an
  address attribute of declared length 0 met by the attribute loop ends the decode with
  that error, not with the no-address success.
\<close>

theorem empty_address_attribute:
  "get_addr [] = Inl (errors_New ''STUN Client: Empty attribute recieved'')
   \<and> get_addr_XOR [] T = Inl (errors_New ''STUN Client: Empty attribute recieved'')
   \<and> (bytes_read < message_length
        \<and> (get16 a b = MAPPED_ADDRESS \<or> get16 a b = XOR_MAPPED_ADDRESS)
      \<longrightarrow> attr_loop bytes_read \<lparr>vis = a # b # 0 # 0 # rest, spare = sp\<rparr> message_length T
            = Return (Inl (errors_New ''STUN Client: Empty attribute recieved'')))"
proof -
  have g: "getSingleAttribute \<lparr>vis = a # b # 0 # 0 # rest, spare = sp\<rparr>
             = Return (get16 a b, 0, [], 4, None)"
    by (simp add: getSingleAttribute_def len_def cap_def reslice_def get16_def copy_def)
  have r: "reslice_from \<lparr>vis = a # b # 0 # 0 # rest, spare = sp\<rparr> 0
             = Return \<lparr>vis = a # b # 0 # 0 # rest, spare = sp\<rparr>"
    using reslice_from_0 [of "\<lparr>vis = a # b # 0 # 0 # rest, spare = sp\<rparr>"] by simp
  have x: "XOR_MAPPED_ADDRESS \<noteq> MAPPED_ADDRESS"
    by (simp add: XOR_MAPPED_ADDRESS_def MAPPED_ADDRESS_def)
  show ?thesis
    using x
    by (auto simp: attr_loop.simps [of bytes_read] g r get_addr_def get_addr_XOR_def)
qed

theorem empty_address_attribute_witness:
  "get_addr [] = Inl (errors_New ''STUN Client: Empty attribute recieved'')
   \<and> get_addr_XOR [] [] = Inl (errors_New ''STUN Client: Empty attribute recieved'')
   \<and> attr_loop 0 \<lparr>vis = [0x00, 0x20, 0, 0], spare = []\<rparr> 4 []
        = Return (Inl (errors_New ''STUN Client: Empty attribute recieved''))"
  using empty_address_attribute [of "[]" 0 4 "0x00" "0x20" "[]" "[]"]
  by (simp add: get16_def XOR_MAPPED_ADDRESS_def)

section \<open>Null socket or server\<close>

text \<open>
  C9 as stated fails: a call without a socket returns \<open>Gen_Random_Error\<close>, the very
  error a failing entropy source gives; the package has no error of its own for a
  missing socket or server.
\<close>

theorem null_socket_counterexample:
  "RequestRemoteIPAndPort None (Some \<lparr>IP = [192, 0, 2, 1], Port = 3478\<rparr>)
     \<lparr>entropy_err = None, entropy = of_nat, entropy_pos = 0,
      net_writes = [], net_reads = [], sent = []\<rparr>
   = Some (Return (Inl Gen_Random_Error),
      \<lparr>entropy_err = None, entropy = of_nat, entropy_pos = 0,
       net_writes = [], net_reads = [], sent = []\<rparr>)
   \<and> RequestRemoteIPAndPort (Some (UDPConn 3)) (Some \<lparr>IP = [192, 0, 2, 1], Port = 3478\<rparr>)
     \<lparr>entropy_err = Some io_ErrUnexpectedEOF, entropy = of_nat, entropy_pos = 0,
      net_writes = [], net_reads = [], sent = []\<rparr>
   = Some (Return (Inl Gen_Random_Error),
      \<lparr>entropy_err = Some io_ErrUnexpectedEOF, entropy = of_nat, entropy_pos = 0,
       net_writes = [], net_reads = [], sent = []\<rparr>)"
  by (simp add: RequestRemoteIPAndPort_def rand_Read_def)

text \<open>
  C9, amended. Every call with a null socket or a null server fails with
  \<open>Gen_Random_Error\<close> and leaves the world as it was: no entropy is taken and nothing
  is sent.
\<close>

theorem null_socket_or_server:
  assumes "conn = None \<or> server = None"
  shows "RequestRemoteIPAndPort conn server w = Some (Return (Inl Gen_Random_Error), w)"
  using assms by (auto simp: RequestRemoteIPAndPort_def)

theorem null_socket_or_server_witness:
  "RequestRemoteIPAndPort (Some (UDPConn 3)) None
     \<lparr>entropy_err = None, entropy = of_nat, entropy_pos = 0,
      net_writes = [Inr 20], net_reads = [], sent = []\<rparr>
   = Some (Return (Inl Gen_Random_Error),
      \<lparr>entropy_err = None, entropy = of_nat, entropy_pos = 0,
       net_writes = [Inr 20], net_reads = [], sent = []\<rparr>)"
  using null_socket_or_server [of "Some (UDPConn 3)" None]
  by simp

section \<open>The decoder on a received datagram\<close>

lemma length_packet_of: "length (packet_of raw) = 1280"
  by (simp add: packet_of_def)

lemma header_read_total:
  "\<exists>data. binary_Read_header (take 20 (packet_of raw)) = Inr data"
  by (simp add: binary_Read_header_def length_packet_of)

lemma decode_cases:
  assumes "binary_Read_header (take 20 (packet_of raw)) = Inr data"
  shows "decode raw tid =
    (if 0 \<le> sint (Message_length data) \<and> sint (Message_length data) \<le> 1260
     then if Message_type data \<noteq> SUCCESS_RESPONSE
          then Return (Inl (Not_Success_Response (take 20 (packet_of raw))
                 (take (nat (sint (Message_length data))) (drop 20 (packet_of raw)))))
          else if Transaction_id data \<noteq> tid
          then Return (Inl (Unknown_Transaction_Id (Transaction_id data) tid))
          else attr_loop 0 (restricted_body (packet_of raw) (sint (Message_length data)))
                 (sint (Message_length data)) tid
     else Panic slice_bounds_out_of_range)"
proof -
  let ?p = "packet_of raw"
  have h: "reslice \<lparr>vis = ?p, spare = []\<rparr> 0 20 = Return \<lparr>vis = take 20 ?p, spare = drop 20 ?p\<rparr>"
    by (simp add: reslice_def cap_def length_packet_of)
  have b: "reslice_from \<lparr>vis = ?p, spare = []\<rparr> 20 = Return \<lparr>vis = drop 20 ?p, spare = []\<rparr>"
    by (simp add: reslice_from_def reslice_def cap_def len_def length_packet_of)
  have r: "reslice \<lparr>vis = drop 20 ?p, spare = []\<rparr> 0 n =
     (if 0 \<le> n \<and> n \<le> 1260 then Return (restricted_body ?p n)
      else Panic slice_bounds_out_of_range)" for n
    by (simp add: reslice_def cap_def length_packet_of restricted_body_def)
  show ?thesis
    unfolding decode_def recvMessage_decode_def h b
    by (simp add: assms r restricted_body_def)
qed

section \<open>Order of the checks\<close>



section \<open>A response without an address attribute\<close>

lemma walk_exhausts_attr_loop:
  "walk_exhausts bytes_read body message_length \<Longrightarrow>
   attr_loop bytes_read body message_length tid = Return (Inr None)"
proof (induction bytes_read body message_length rule: walk_exhausts.induct)
  case (1 bytes_read body message_length)
  show ?case
  proof (cases "bytes_read < message_length")
    case False
    then show ?thesis by (simp add: attr_loop.simps)
  next
    case True
    from "1.prems" have step: "case getSingleAttribute body of
          Panic p \<Rightarrow> False
        | Return (attr_type, attr_size, attr_value, r, err) \<Rightarrow>
            (case reslice_from body (sint attr_size) of
               Panic p \<Rightarrow> False
             | Return body' \<Rightarrow>
                 if err = None \<and> attr_type \<noteq> MAPPED_ADDRESS
                    \<and> attr_type \<noteq> XOR_MAPPED_ADDRESS
                 then walk_exhausts (bytes_read + r) body' message_length
                 else False)"
      using True by (subst (asm) walk_exhausts.simps) simp
    show ?thesis
    proof (cases "getSingleAttribute body")
      case (Panic p)
      with step show ?thesis by simp
    next
      case (Return x)
      obtain attr_type attr_size attr_value r err
        where x: "x = (attr_type, attr_size, attr_value, r, err)"
        by (cases x)
      note g = Return [unfolded x]
      show ?thesis
      proof (cases "reslice_from body (sint attr_size)")
        case (Panic p)
        with step g show ?thesis by simp
      next
        case s: (Return body')
        from step g s have e: "err = None"
          and t: "attr_type \<noteq> MAPPED_ADDRESS" "attr_type \<noteq> XOR_MAPPED_ADDRESS"
          and w: "walk_exhausts (bytes_read + r) body' message_length"
          by (simp_all split: if_splits)
        have "attr_loop (bytes_read + r) body' message_length tid = Return (Inr None)"
          using "1.IH" [OF True g refl refl refl refl s _ w] e t by simp
        then show ?thesis
          using True g s e t by (subst attr_loop.simps) simp
      qed
    qed
  qed
qed

lemma sendMessage_whole:
  assumes "net_writes w = Inr 20 # ws" and "length header = 20"
  shows "sendMessage w header [] =
           Some (Return None, w\<lparr>net_writes := ws, sent := sent w @ [header]\<rparr>)"
proof -
  have "WriteToUDP_loop (Inr 20 # ws) (sent w) (bytes_Buffer_Bytes header) 20
          = Some (Return None, ws, sent w @ [header])"
    using assms(2)
    by (simp add: WriteToUDP_loop.simps [of _ _ _ 20] WriteToUDP_loop.simps [of _ _ _ 0]
          bytes_Buffer_Bytes_def reslice_def cap_def)
  then show ?thesis
    using assms by (simp add: sendMessage_def len_def bytes_Buffer_Bytes_def)
qed

lemma request_reaches_decode:
  assumes "entropy_err w = None"
    and "map (entropy w) [entropy_pos w ..< entropy_pos w + 12] = tid"
    and "net_writes w = Inr 20 # ws"
    and "ReadFromUDP_loop (net_reads w) = Some (Inr raw, rs)"
    and "decode raw tid = Return (Inr addr)"
  shows "\<exists>w'. RequestRemoteIPAndPort (Some conn) (Some server) w = Some (Return (Inr addr), w')"
proof -
  let ?w1 = "w\<lparr>entropy_pos := entropy_pos w + 12\<rparr>"
  have n: "unat (trans_id_size div 8) = 12"
    by (simp add: trans_id_size_def)
  have r: "rand_Read w 12 = (Inr tid, ?w1)"
    using assms(1,2) by (simp add: rand_Read_def)
  obtain hdr where h: "makeHeader REQUEST 0 MAGIC_COOKIE tid = Inr hdr" "length hdr = 20"
    using assms(2) by (auto simp: makeHeader_def put16_def put32_def)
  have s: "sendMessage ?w1 hdr [] =
             Some (Return None, ?w1\<lparr>net_writes := ws, sent := sent ?w1 @ [hdr]\<rparr>)"
    using assms(3) h(2) by (intro sendMessage_whole) simp_all
  show ?thesis
    unfolding RequestRemoteIPAndPort_def n r
    using assms(4,5) by (simp add: h s recvMessage_def decode_def [symmetric])
qed

text \<open>
  C8. A success response with the expected transaction id whose attribute loop runs to
  the end of the declared length without meeting a MAPPED-ADDRESS or XOR-MAPPED-ADDRESS
  attribute decodes to no address and no error; and when the entropy source works, the
  request is written in one piece and this response is the datagram read, the public
  operation returns no address and no error.
\<close>

theorem no_address_success:
  assumes "binary_Read_header (take 20 (packet_of raw)) = Inr data"
    and "0 \<le> sint (Message_length data)" and "sint (Message_length data) \<le> 1260"
    and "Message_type data = SUCCESS_RESPONSE"
    and "Transaction_id data = tid"
    and "walk_exhausts 0 (restricted_body (packet_of raw) (sint (Message_length data)))
           (sint (Message_length data))"
    and "entropy_err w = None"
    and "map (entropy w) [entropy_pos w ..< entropy_pos w + 12] = tid"
    and "net_writes w = Inr 20 # ws"
    and "ReadFromUDP_loop (net_reads w) = Some (Inr raw, rs)"
  shows "decode raw tid = Return (Inr None)
       \<and> (\<exists>w'. RequestRemoteIPAndPort (Some conn) (Some server) w
                 = Some (Return (Inr None), w'))"
proof -
  have d: "decode raw tid = Return (Inr None)"
    using assms(2-5) walk_exhausts_attr_loop [OF assms(6)]
    by (simp add: decode_cases [OF assms(1)])
  with request_reaches_decode [OF assms(7-10)] show ?thesis
    by simp
qed


theorem no_address_success_witness:
  "decode [0x01, 0x01, 0x00, 0x08, 0x21, 0x12, 0xA4, 0x42, 0, 1, 2, 3, 4, 5, 6, 7, 8, 9, 10, 11,
           0x00, 0x06, 0x00, 0x04, 0x75, 0x73, 0x65, 0x72]
          [0, 1, 2, 3, 4, 5, 6, 7, 8, 9, 10, 11] = Return (Inr None)
   \<and> (\<exists>w'. RequestRemoteIPAndPort (Some (UDPConn 3)) (Some \<lparr>IP = [192, 0, 2, 1], Port = 3478\<rparr>)
          \<lparr>entropy_err = None, entropy = of_nat, entropy_pos = 0, net_writes = [Inr 20],
           net_reads = [Inr [0x01, 0x01, 0x00, 0x08, 0x21, 0x12, 0xA4, 0x42,
                             0, 1, 2, 3, 4, 5, 6, 7, 8, 9, 10, 11,
                             0x00, 0x06, 0x00, 0x04, 0x75, 0x73, 0x65, 0x72]],
           sent = []\<rparr>
        = Some (Return (Inr None), w'))"
proof -
  let ?raw = "[0x01, 0x01, 0x00, 0x08, 0x21, 0x12, 0xA4, 0x42, 0, 1, 2, 3, 4, 5, 6, 7, 8, 9, 10, 11,
               0x00, 0x06, 0x00, 0x04, 0x75, 0x73, 0x65, 0x72] :: byte list"
  let ?tid = "[0, 1, 2, 3, 4, 5, 6, 7, 8, 9, 10, 11] :: byte list"
  let ?data = "\<lparr>Message_type = 0x0101, Message_length = 8, Magic_cookie = 0x2112A442,
                Transaction_id = ?tid\<rparr>"
  let ?w = "\<lparr>entropy_err = None, entropy = of_nat, entropy_pos = 0, net_writes = [Inr 20],
             net_reads = [Inr ?raw], sent = []\<rparr>"
  have h: "binary_Read_header (take 20 (packet_of ?raw)) = Inr ?data"
    by (simp add: packet_of_def binary_Read_header_def get16_def get32_def)
  have b: "restricted_body (packet_of ?raw) 8 =
             \<lparr>vis = [0x00, 0x06, 0x00, 0x04, 0x75, 0x73, 0x65, 0x72], spare = replicate 1252 0\<rparr>"
    by (simp add: packet_of_def restricted_body_def)
  have g: "getSingleAttribute
             \<lparr>vis = [0x00, 0x06, 0x00, 0x04, 0x75, 0x73, 0x65, 0x72], spare = replicate 1252 0\<rparr>
           = Return (0x0006, 4, [0x75, 0x73, 0x65, 0x72], 8, None)"
    by (simp add: getSingleAttribute_def len_def cap_def reslice_def get16_def copy_def)
  have s: "reslice_from
             \<lparr>vis = [0x00, 0x06, 0x00, 0x04, 0x75, 0x73, 0x65, 0x72], spare = replicate 1252 0\<rparr> 4
           = Return \<lparr>vis = [0x75, 0x73, 0x65, 0x72], spare = replicate 1252 0\<rparr>"
    using reslice_from_nat [of 4 "\<lparr>vis = [0x00, 0x06, 0x00, 0x04, 0x75, 0x73, 0x65, 0x72],
                                    spare = replicate 1252 0\<rparr>"]
    by simp
  have w: "walk_exhausts 0 (restricted_body (packet_of ?raw) (sint (Message_length ?data)))
             (sint (Message_length ?data))"
    by (simp add: b walk_exhausts.simps [of 0] walk_exhausts.simps [of 8] g s
          MAPPED_ADDRESS_def XOR_MAPPED_ADDRESS_def)
  have e: "map (entropy ?w) [entropy_pos ?w ..< entropy_pos ?w + 12] = ?tid"
    by (simp add: upt_rec)
  show ?thesis
    using no_address_success [OF h _ _ _ _ w _ e, of "[]" "[]" "UDPConn 3"
            "\<lparr>IP = [192, 0, 2, 1], Port = 3478\<rparr>"]
    by (simp add: SUCCESS_RESPONSE_def)
qed

section \<open>Datagrams shorter than a header\<close>

lemma getSingleAttribute_zeros:
  assumes "set (vis body) \<subseteq> {0}"
  shows "\<exists>r err. getSingleAttribute body = Return (0, 0, [], r, err)"
proof (cases "length (vis body) < 4")
  case True
  then show ?thesis
    by (cases "vis body"; cases "tl (vis body)"; cases "tl (tl (vis body))";
        cases "tl (tl (tl (vis body)))")
       (auto simp: getSingleAttribute_def len_def)
next
  case False
  then obtain a b c d rest where v: "vis body = a # b # c # d # rest"
    by (cases "vis body"; cases "tl (vis body)"; cases "tl (tl (vis body))";
        cases "tl (tl (tl (vis body)))") auto
  with assms have z: "a = 0" "b = 0" "c = 0" "d = 0" by auto
  show ?thesis
    by (simp add: getSingleAttribute_def len_def cap_def reslice_def v z get16_def copy_def)
qed

lemma attr_loop_zeros:
  "set (vis body) \<subseteq> {0} \<Longrightarrow>
   attr_loop bytes_read body message_length tid \<noteq> Return (Inr (Some a))"
proof (induction bytes_read body message_length tid rule: attr_loop.induct)
  case (1 bytes_read body message_length tid)
  show ?case
  proof (cases "bytes_read < message_length")
    case False
    then show ?thesis by (simp add: attr_loop.simps)
  next
    case True
    from getSingleAttribute_zeros [OF "1.prems"] obtain r err
      where g: "getSingleAttribute body = Return (0, 0, [], r, err)" by blast
    have s: "reslice_from body (sint (0 :: int16)) = Return \<lparr>vis = vis body, spare = spare body\<rparr>"
      using reslice_from_0 [of body] by simp
    show ?thesis
    proof (cases err)
      case (Some e)
      with True g s show ?thesis by (subst attr_loop.simps) simp
    next
      case None
      have "attr_loop (bytes_read + r) \<lparr>vis = vis body, spare = spare body\<rparr> message_length tid
              \<noteq> Return (Inr (Some a))"
        using "1.IH" [OF True g refl refl refl refl s None] "1.prems"
        by (simp add: MAPPED_ADDRESS_def XOR_MAPPED_ADDRESS_def)
      with True g s None show ?thesis
        by (subst attr_loop.simps) (simp add: MAPPED_ADDRESS_def XOR_MAPPED_ADDRESS_def)
    qed
  qed
qed

lemma packet_of_short:
  "length raw \<le> 1280 \<Longrightarrow> packet_of raw = raw @ replicate (1280 - length raw) 0"
  by (simp add: packet_of_def)

text \<open>
  C3 as stated fails: the number of bytes received is never compared with 20. A datagram
  of two bytes with type \<open>0x0111\<close> fails with \<open>Not_Success_Response\<close>, and one with
  type \<open>0x0101\<close> read for the all-zero transaction id succeeds with no address.
\<close>

theorem short_datagram_counterexample:
  "length [0x01, 0x11 :: byte] < 20
   \<and> decode [0x01, 0x11] [0, 1, 2, 3, 4, 5, 6, 7, 8, 9, 10, 11]
       = Return (Inl (Not_Success_Response
           [0x01, 0x11, 0, 0, 0, 0, 0, 0, 0, 0, 0, 0, 0, 0, 0, 0, 0, 0, 0, 0] []))
   \<and> decode [0x01, 0x01] [0, 0, 0, 0, 0, 0, 0, 0, 0, 0, 0, 0] = Return (Inr None)"
  by code_simp

text \<open>
  C3, amended. A datagram shorter than 20 bytes is not rejected for its size: the header
  is the first 20 bytes of the zero-filled receive buffer, so the datagram decodes as
  the same bytes followed by zero bytes up to 20, and the decoder never resolves an
  address from it.
\<close>

theorem short_datagram:
  assumes "length raw < 20"
  shows "decode raw tid = decode (raw @ replicate (20 - length raw) 0) tid
       \<and> (\<forall>a. decode raw tid \<noteq> Return (Inr (Some a)))"
proof -
  have p: "packet_of raw = raw @ replicate (1280 - length raw) 0"
    using assms by (simp add: packet_of_short)
  have "packet_of (raw @ replicate (20 - length raw) 0) =
          raw @ replicate (20 - length raw) 0 @ replicate 1260 0"
    using assms by (simp add: packet_of_short)
  also have "replicate (20 - length raw) 0 @ replicate 1260 (0 :: byte)
               = replicate (1280 - length raw) 0"
    using assms by (simp add: replicate_add [symmetric])
  finally have same: "decode raw tid = decode (raw @ replicate (20 - length raw) 0) tid"
    by (simp add: decode_def p)
  have body: "drop 20 (packet_of raw) = replicate 1260 0"
    using assms by (simp add: p)
  obtain data where h: "binary_Read_header (take 20 (packet_of raw)) = Inr data"
    using header_read_total by blast
  have z: "set (vis (restricted_body (packet_of raw) (sint (Message_length data)))) \<subseteq> {0}"
    by (auto simp: restricted_body_def body)
  have "decode raw tid \<noteq> Return (Inr (Some a))" for a
    unfolding decode_cases [OF h]
    using attr_loop_zeros [OF z] by simp
  with same show ?thesis by simp
qed

theorem short_datagram_witness:
  "decode [0x01, 0x01, 0x00, 0x08] [0, 0, 0, 0, 0, 0, 0, 0, 0, 0, 0, 0]
     = decode [0x01, 0x01, 0x00, 0x08, 0, 0, 0, 0, 0, 0, 0, 0, 0, 0, 0, 0, 0, 0, 0, 0]
         [0, 0, 0, 0, 0, 0, 0, 0, 0, 0, 0, 0]
   \<and> (\<forall>a. decode [0x01, 0x01, 0x00, 0x08] [0, 0, 0, 0, 0, 0, 0, 0, 0, 0, 0, 0]
            \<noteq> Return (Inr (Some a)))"
proof -
  have l: "length [0x01, 0x01, 0x00, 0x08 :: byte] < 20"
    by simp
  have r: "[0x01, 0x01, 0x00, 0x08] @ replicate (20 - length [0x01, 0x01, 0x00, 0x08 :: byte]) 0
             = [0x01, 0x01, 0x00, 0x08, 0, 0, 0, 0, 0, 0, 0, 0, 0, 0, 0, 0, 0, 0, 0, 0 :: byte]"
    by (simp add: numeral_eq_Suc)
  show ?thesis
    using short_datagram [OF l, of "[0, 0, 0, 0, 0, 0, 0, 0, 0, 0, 0, 0]", unfolded r] .
qed

section \<open>Skipping an attribute\<close>

text \<open>
  One round of the loop over an attribute that is not an address: \<open>bytes_read\<close> grows
  by \<open>4 + L\<close>, the slice only by \<open>L\<close>.
\<close>

lemma getSingleAttribute_size:
  assumes "getSingleAttribute body = Return (t, sz, v, r, None)"
  shows "0 \<le> sint sz \<and> r = 4 + sint sz"
  using assms
  by (auto simp: getSingleAttribute_def split: if_splits sum.splits run.splits)

lemma attr_loop_skip:
  assumes "bytes_read < message_length"
    and "getSingleAttribute body = Return (t, sz, v, r, None)"
    and "t \<noteq> MAPPED_ADDRESS" and "t \<noteq> XOR_MAPPED_ADDRESS"
    and "sint sz \<le> len body"
  shows "attr_loop bytes_read body message_length tid =
           attr_loop (bytes_read + (4 + sint sz))
             \<lparr>vis = drop (nat (sint sz)) (vis body), spare = spare body\<rparr> message_length tid"
proof -
  from getSingleAttribute_size [OF assms(2)]
  have z: "0 \<le> sint sz" and r: "r = 4 + sint sz" by simp_all
  have "reslice_from body (int (nat (sint sz))) =
          Return \<lparr>vis = drop (nat (sint sz)) (vis body), spare = spare body\<rparr>"
    using assms(5) z by (intro reslice_from_nat) (simp add: len_def)
  then have s: "reslice_from body (sint sz) =
          Return \<lparr>vis = drop (nat (sint sz)) (vis body), spare = spare body\<rparr>"
    using z by simp
  show ?thesis
    using assms(1,3,4) by (subst attr_loop.simps) (simp add: assms(2) s r)
qed

text \<open>
  C1 does not hold of the code. After an attribute of declared length \<open>L\<close> the loop
  counts \<open>4 + L\<close> bytes as read but moves \<open>body\<close> on by \<open>L\<close> only
  (\<open>body = body[attr_size:]\<close>). The XOR-MAPPED-ADDRESS attribute that resolves to
  203.0.113.5:12345 when it stands alone is not found behind a USERNAME attribute: behind
  an empty USERNAME the loop reads the same four bytes again until the declared length is
  used up and returns no address; behind the USERNAME "user" it reads the value as the
  next attribute header and panics on its length.
\<close>

theorem skip_misaligned:
  "decode [0x01, 0x01, 0x00, 0x0C, 0x21, 0x12, 0xA4, 0x42, 0, 1, 2, 3, 4, 5, 6, 7, 8, 9, 10, 11,
           0x00, 0x20, 0x00, 0x08, 0x00, 0x01, 0x11, 0x2B, 0xEA, 0x12, 0xD5, 0x47]
          [0, 1, 2, 3, 4, 5, 6, 7, 8, 9, 10, 11]
     = Return (Inr (Some \<lparr>IP = [203, 0, 113, 5], Port = 12345\<rparr>))
   \<and> decode [0x01, 0x01, 0x00, 0x10, 0x21, 0x12, 0xA4, 0x42, 0, 1, 2, 3, 4, 5, 6, 7, 8, 9, 10, 11,
           0x00, 0x06, 0x00, 0x00,
           0x00, 0x20, 0x00, 0x08, 0x00, 0x01, 0x11, 0x2B, 0xEA, 0x12, 0xD5, 0x47]
          [0, 1, 2, 3, 4, 5, 6, 7, 8, 9, 10, 11]
     = Return (Inr None)
   \<and> decode [0x01, 0x01, 0x00, 0x14, 0x21, 0x12, 0xA4, 0x42, 0, 1, 2, 3, 4, 5, 6, 7, 8, 9, 10, 11,
           0x00, 0x06, 0x00, 0x04, 0x75, 0x73, 0x65, 0x72,
           0x00, 0x20, 0x00, 0x08, 0x00, 0x01, 0x11, 0x2B, 0xEA, 0x12, 0xD5, 0x47]
          [0, 1, 2, 3, 4, 5, 6, 7, 8, 9, 10, 11]
     = Panic slice_bounds_out_of_range"
  by code_simp

section \<open>Truncated attributes\<close>

text \<open>
  C2 does not hold of the code. \<open>getSingleAttribute\<close> does not compare the declared
  length with the bytes left. An XOR-MAPPED-ADDRESS attribute that declares 8 value bytes
  with 4 left in the body is completed from the buffer behind the body and resolves to an
  address; an attribute that declares 16 value bytes with 4 left makes
  \<open>body[attr_size:]\<close> panic.
\<close>

theorem truncated_attribute:
  "decode [0x01, 0x01, 0x00, 0x08, 0x21, 0x12, 0xA4, 0x42, 0, 1, 2, 3, 4, 5, 6, 7, 8, 9, 10, 11,
           0x00, 0x20, 0x00, 0x08, 0x00, 0x01, 0x11, 0x2B]
          [0, 1, 2, 3, 4, 5, 6, 7, 8, 9, 10, 11]
     = Return (Inr (Some \<lparr>IP = [0x21, 0x12, 0xA4, 0x42], Port = 12345\<rparr>))
   \<and> decode [0x01, 0x01, 0x00, 0x08, 0x21, 0x12, 0xA4, 0x42, 0, 1, 2, 3, 4, 5, 6, 7, 8, 9, 10, 11,
           0x00, 0x06, 0x00, 0x10, 0x61, 0x62, 0x63, 0x64]
          [0, 1, 2, 3, 4, 5, 6, 7, 8, 9, 10, 11]
     = Panic slice_bounds_out_of_range"
  by code_simp

end
